theory Spec2Isabelle
  imports Main "HOL-Library.Sublist" "HOL-Library.Word"
begin

section \<open>Strings\<close>

text \<open>
  A JavaScript string is a sequence of 16-bit code units.  The string literals of the
  source are ASCII; \<open>ascii\<close> gives the code units of such a literal.
\<close>

type_synonym js_string = "16 word list"

definition ascii :: "string \<Rightarrow> js_string" where
  "ascii s = map of_char s"

text \<open>
  \<^verbatim>\<open>s.includes(q)\<close>: does \<open>q\<close> occur in \<open>s\<close> as a run of consecutive code
  units?  The name carries a prefix because \<open>includes\<close> is a keyword of Isabelle.
\<close>

fun startsWith :: "js_string \<Rightarrow> js_string \<Rightarrow> bool" where
  "startsWith s [] = True"
| "startsWith [] (c # q) = False"
| "startsWith (a # s) (c # q) = (a = c \<and> startsWith s q)"

fun str_includes :: "js_string \<Rightarrow> js_string \<Rightarrow> bool" where
  "str_includes [] q = (q = [])"
| "str_includes (a # s) q = (startsWith (a # s) q \<or> str_includes s q)"

text \<open>
  \<^verbatim>\<open>String.prototype.toLowerCase\<close> is a built-in of the language and its Unicode
  case mapping is not part of the repository.  Every definition that calls it takes it
  as the parameter \<open>toLowerCase\<close>, a function on strings, and every general fact below
  holds for each such function.  The example data is ASCII, and on ASCII strings the
  built-in is \<open>asciiToLowerCase\<close>: the code units of \<open>A\<close> to \<open>Z\<close> move to
  those of \<open>a\<close> to \<open>z\<close> and nothing else changes.
\<close>

definition asciiToLowerCase :: "js_string \<Rightarrow> js_string" where
  "asciiToLowerCase s = map (\<lambda>u. if 0x41 \<le> u \<and> u \<le> 0x5A then u + 0x20 else u) s"

section \<open>Data model\<close>

text \<open>
  The interfaces of \<^verbatim>\<open>OrderList.tsx\<close> and of the stock list component
  (\<^verbatim>\<open>unnamed/part_000\<close>).  Field names that two interfaces share, or that clash
  with a constant of HOL, carry the interface's name as a prefix (\<^verbatim>\<open>_id\<close> of an order
  is \<open>order_id\<close>).  The stock list declares \<^verbatim>\<open>Product\<close> and \<^verbatim>\<open>Stock\<close> with the
  additional fields \<^verbatim>\<open>category\<close> and \<^verbatim>\<open>createdAt\<close>; the records below carry them.
  JavaScript numbers that hold amounts, quantities and indices are integers.
  An optional field is an \<open>option\<close>.
\<close>

record Customer =
  customer_id :: js_string
  firstName :: js_string
  lastName :: js_string
  email :: "js_string option"
  phone :: js_string
  address :: js_string
  city :: js_string
  state :: js_string

record Product =
  product_id :: js_string
  name :: js_string
  productCode :: js_string
  description :: js_string
  product_size :: js_string
  color :: js_string
  product_price :: int
  category :: js_string
  images :: "js_string list"
  product_createdAt :: js_string

record Stock =
  stock_id :: js_string
  product :: Product
  batchNumber :: js_string
  stock_quantity :: int
  stock_size :: js_string
  stock_price :: int
  lowStockAlert :: int
  lastRestocked :: js_string
  supplier :: js_string
  stock_createdAt :: js_string

record OrderItem =
  item_id :: js_string
  stock :: Stock
  item_quantity :: int

record Order =
  order_id :: js_string
  customer :: Customer
  items :: "OrderItem list"
  totalAmount :: int
  status :: js_string
  order_createdAt :: js_string
  deletedAt :: int

text \<open>The bound action of a confirmation descriptor: the initial \<^verbatim>\<open>() => {}\<close> or
  \<^verbatim>\<open>() => performDelete(item)\<close>.\<close>

datatype 'a Action = NoAction | PerformDelete 'a

record 'a ConfirmationConfig =
  isOpen :: bool
  title :: js_string
  message :: js_string
  confirmButtonText :: js_string
  cancelButtonText :: js_string
  itemToDelete :: "'a option"
  onConfirm :: "'a Action"

record ProductModalState =
  modal_isOpen :: bool
  products :: "OrderItem list"

text \<open>One entry of \<^verbatim>\<open>StatusUpdateState\<close>; the object keyed by order id is a map, and
  an absent key is the idle state.\<close>

record StatusUpdate =
  update_isLoading :: bool
  update_error :: "js_string option"

type_synonym StatusUpdateState = "js_string \<rightharpoonup> StatusUpdate"

text \<open>The state hooks of \<^verbatim>\<open>OrderList\<close>.\<close>

record OrderListState =
  orders :: "Order list"
  filteredOrders :: "Order list"
  isLoading :: bool
  error :: "js_string option"
  searchQuery :: js_string
  statusUpdates :: StatusUpdateState
  productModal :: ProductModalState
  currentProductIndex :: int
  currentImageIndex :: int
  confirmation :: "Order ConfirmationConfig"

text \<open>The state hooks of \<^verbatim>\<open>StockList\<close>.\<close>

record StockListState =
  stocks :: "Stock list"
  filteredStocks :: "Stock list"
  stock_isLoading :: bool
  stock_error :: "js_string option"
  stock_searchQuery :: js_string
  selectedProduct :: "Product option"
  stockToEdit :: "Stock option"
  stock_confirmation :: "Stock ConfirmationConfig"

definition initialConfirmation :: "'a ConfirmationConfig" where
  "initialConfirmation =
     \<lparr>isOpen = False, title = [], message = [], confirmButtonText = (ascii ''Confirm''),
      cancelButtonText = (ascii ''Cancel''), itemToDelete = None, onConfirm = NoAction\<rparr>"

definition initialOrderList :: OrderListState where
  "initialOrderList =
     \<lparr>orders = [], filteredOrders = [], isLoading = True, error = None, searchQuery = [],
      statusUpdates = Map.empty,
      productModal = \<lparr>modal_isOpen = False, products = []\<rparr>,
      currentProductIndex = 0, currentImageIndex = 0,
      confirmation = initialConfirmation\<rparr>"

definition initialStockList :: StockListState where
  "initialStockList =
     \<lparr>stocks = [], filteredStocks = [], stock_isLoading = True, stock_error = None,
      stock_searchQuery = [], selectedProduct = None, stockToEdit = None,
      stock_confirmation = initialConfirmation\<rparr>"

section \<open>Search\<close>

text \<open>The predicate passed to \<^verbatim>\<open>orders.filter\<close> in \<^verbatim>\<open>handleSearch\<close>
  (OrderList.tsx, lines 389 to 395).  The optional chain on \<^verbatim>\<open>email\<close> yields
  \<^verbatim>\<open>undefined\<close>, which is falsy, when the field is absent.\<close>

definition orderMatches :: "(js_string \<Rightarrow> js_string) \<Rightarrow> js_string \<Rightarrow> Order \<Rightarrow> bool" where
  "orderMatches toLowerCase query order =
     (str_includes (toLowerCase (firstName (customer order))) (toLowerCase query) \<or>
      str_includes (toLowerCase (lastName (customer order))) (toLowerCase query) \<or>
      str_includes (toLowerCase (status order)) (toLowerCase query) \<or>
      (case email (customer order) of
         None \<Rightarrow> False
       | Some e \<Rightarrow> str_includes (toLowerCase e) (toLowerCase query)) \<or>
      str_includes (phone (customer order)) query)"

text \<open>
  A call that a debounced search function holds until it fires: the array the closure
  captured (\<^verbatim>\<open>orders\<close> or \<^verbatim>\<open>stocks\<close> of the render in which the key was typed)
  and the query it was called with.
\<close>

record 'a SearchCall =
  capturedItems :: "'a list"
  calledQuery :: js_string

text \<open>
  The body of the debounced \<^verbatim>\<open>handleSearch\<close> of the order list
  (\<^verbatim>\<open>setFilteredOrders(orders.filter(...))\<close>).  \<open>captured\<close> is the \<^verbatim>\<open>orders\<close> of
  the closure, not the \<^verbatim>\<open>orders\<close> of the state the body runs in.
\<close>

definition handleSearch ::
  "(js_string \<Rightarrow> js_string) \<Rightarrow> Order list \<Rightarrow> js_string \<Rightarrow> OrderListState \<Rightarrow> OrderListState" where
  "handleSearch toLowerCase captured query s =
     s\<lparr>filteredOrders := filter (orderMatches toLowerCase query) captured\<rparr>"

text \<open>
  \<^verbatim>\<open>handleSearchInputChange\<close>: the query is stored at once, and the debounced
  function is called; it closes over the \<^verbatim>\<open>orders\<close> of the current render.  The
  result is the new state and the call that is now waiting.
\<close>

definition handleSearchInputChange ::
  "js_string \<Rightarrow> OrderListState \<Rightarrow> OrderListState \<times> Order SearchCall" where
  "handleSearchInputChange query s =
     (s\<lparr>searchQuery := query\<rparr>, \<lparr>capturedItems = orders s, calledQuery = query\<rparr>)"

text \<open>
  The waiting call fires, 300 ms after the last call of that debounced function, on the
  state of that moment.  The timing of the debounce is not part of the model: a call may
  fire on any later state.
\<close>

definition searchFires ::
  "(js_string \<Rightarrow> js_string) \<Rightarrow> Order SearchCall \<Rightarrow> OrderListState \<Rightarrow> OrderListState" where
  "searchFires toLowerCase call s =
     handleSearch toLowerCase (capturedItems call) (calledQuery call) s"

text \<open>The predicate of the stock list's \<^verbatim>\<open>handleSearch\<close> (part_000, lines 149 to 154).\<close>

definition stockMatches :: "(js_string \<Rightarrow> js_string) \<Rightarrow> js_string \<Rightarrow> Stock \<Rightarrow> bool" where
  "stockMatches toLowerCase query st =
     (str_includes (toLowerCase (name (product st))) (toLowerCase query) \<or>
      str_includes (toLowerCase (productCode (product st))) (toLowerCase query) \<or>
      str_includes (toLowerCase (batchNumber st)) (toLowerCase query) \<or>
      str_includes (toLowerCase (supplier st)) (toLowerCase query))"

text \<open>The same three steps in the stock list (part_000, lines 147 to 162); the closure
  captures \<^verbatim>\<open>stocks\<close> of the render.\<close>

definition stock_handleSearch ::
  "(js_string \<Rightarrow> js_string) \<Rightarrow> Stock list \<Rightarrow> js_string \<Rightarrow> StockListState \<Rightarrow> StockListState" where
  "stock_handleSearch toLowerCase captured query s =
     s\<lparr>filteredStocks := filter (stockMatches toLowerCase query) captured\<rparr>"



section \<open>Remote calls\<close>

text \<open>
  What a \<^verbatim>\<open>catch\<close> clause receives: an \<^verbatim>\<open>Error\<close> instance with its message,
  or any other thrown value.
\<close>

datatype Thrown = ErrorInstance js_string | OtherValue

text \<open>\<^verbatim>\<open>error instanceof Error ? error.message : fallback\<close>\<close>

definition errorMessage :: "js_string \<Rightarrow> Thrown \<Rightarrow> js_string" where
  "errorMessage fallback t = (case t of ErrorInstance m \<Rightarrow> m | OtherValue \<Rightarrow> fallback)"

text \<open>The JSON envelope of the list endpoints.\<close>

record 'a Envelope =
  envelope_status :: js_string
  envelope_data :: "'a list"
  envelope_message :: "js_string option"

text \<open>
  The outcome of \<^verbatim>\<open>await fetch(...)\<close> followed by \<^verbatim>\<open>await response.json()\<close>:
  the request is rejected, or a response arrives with its \<^verbatim>\<open>ok\<close> flag and a body
  that parses to an envelope or makes \<^verbatim>\<open>json()\<close> throw.
\<close>

datatype 'a LoadOutcome =
  LoadRejected Thrown
| LoadResponse bool "Thrown + 'a Envelope"

text \<open>The outcome of a call whose body is not read (update, delete).\<close>

datatype CallOutcome =
  CallRejected Thrown
| CallResponse bool

text \<open>\<^verbatim>\<open>m || fallback\<close> on an optional string: absent and empty are falsy.\<close>

definition orElse :: "js_string option \<Rightarrow> js_string \<Rightarrow> js_string" where
  "orElse m fallback = (case m of None \<Rightarrow> fallback | Some t \<Rightarrow> if t = [] then fallback else t)"

text \<open>
  The \<^verbatim>\<open>try\<close> block of a list load up to its two setters: the array to store, or
  the value thrown.  \<open>notOk\<close> is the message thrown on a response that is not ok,
  \<open>noMessage\<close> the fallback for an envelope without message.
\<close>

definition loadResult :: "js_string \<Rightarrow> js_string \<Rightarrow> 'a LoadOutcome \<Rightarrow> Thrown + 'a list" where
  "loadResult notOk noMessage outcome =
     (case outcome of
        LoadRejected t \<Rightarrow> Inl t
      | LoadResponse ok body \<Rightarrow>
          if \<not> ok then Inl (ErrorInstance notOk)
          else (case body of
                  Inl t \<Rightarrow> Inl t
                | Inr result \<Rightarrow>
                    if envelope_status result = (ascii ''SUCCESS'') then Inr (envelope_data result)
                    else Inl (ErrorInstance (orElse (envelope_message result) noMessage))))"

text \<open>
  The \<^verbatim>\<open>try\<close> block of a call whose response body is not read: the value thrown,
  if any.  \<open>notOk\<close> is the message thrown on a response that is not ok.
\<close>

definition callFailure :: "js_string \<Rightarrow> CallOutcome \<Rightarrow> Thrown option" where
  "callFailure notOk outcome =
     (case outcome of
        CallRejected t \<Rightarrow> Some t
      | CallResponse ok \<Rightarrow> if \<not> ok then Some (ErrorInstance notOk) else None)"

section \<open>Loading the lists\<close>

text \<open>\<^verbatim>\<open>loadData\<close> of the order list (lines 107 to 134): the part before the first
  \<^verbatim>\<open>await\<close>, and the rest once the remote call has settled.\<close>

definition loadData_begin :: "OrderListState \<Rightarrow> OrderListState" where
  "loadData_begin s = s\<lparr>isLoading := True, error := None\<rparr>"

definition loadData_settle :: "Order LoadOutcome \<Rightarrow> OrderListState \<Rightarrow> OrderListState" where
  "loadData_settle outcome s =
     (case loadResult (ascii ''Failed to fetch orders'') (ascii ''Failed to fetch orders'') outcome of
        Inr data \<Rightarrow> s\<lparr>orders := data, filteredOrders := data\<rparr>
      | Inl t \<Rightarrow> s\<lparr>error := Some (errorMessage (ascii ''An unknown error occurred'') t)\<rparr>)
     \<lparr>isLoading := False\<rparr>"

definition loadData :: "Order LoadOutcome \<Rightarrow> OrderListState \<Rightarrow> OrderListState" where
  "loadData outcome s = loadData_settle outcome (loadData_begin s)"

text \<open>\<^verbatim>\<open>fetchStocks\<close> of the stock list (part_000, lines 67 to 95).\<close>

definition fetchStocks_begin :: "StockListState \<Rightarrow> StockListState" where
  "fetchStocks_begin s = s\<lparr>stock_isLoading := True, stock_error := None\<rparr>"

definition fetchStocks_settle :: "Stock LoadOutcome \<Rightarrow> StockListState \<Rightarrow> StockListState" where
  "fetchStocks_settle outcome s =
     (case loadResult (ascii ''Failed to fetch stocks'') (ascii ''Unknown error occurred'') outcome of
        Inr data \<Rightarrow> s\<lparr>stocks := data, filteredStocks := data\<rparr>
      | Inl t \<Rightarrow> s\<lparr>stock_error := Some (errorMessage (ascii ''An unknown error occurred'') t)\<rparr>)
     \<lparr>stock_isLoading := False\<rparr>"

definition fetchStocks :: "Stock LoadOutcome \<Rightarrow> StockListState \<Rightarrow> StockListState" where
  "fetchStocks outcome s = fetchStocks_settle outcome (fetchStocks_begin s)"

section \<open>Status updates and their timers\<close>

text \<open>
  A pending \<^verbatim>\<open>setTimeout\<close> callback.  Both callbacks of \<^verbatim>\<open>handleStatusChange\<close>
  delete the entry of the order id they captured, so a timer is its due time in
  milliseconds and that id.  The runtime is the component's state, the clock and the
  pending timers.
\<close>

record Timer =
  fireAt :: nat
  timerOrderId :: js_string

record Runtime =
  ui :: OrderListState
  clock :: nat
  pending :: "Timer list"

definition setTimeout :: "js_string \<Rightarrow> nat \<Rightarrow> Runtime \<Rightarrow> Runtime" where
  "setTimeout orderId delay rt =
     rt\<lparr>pending := pending rt @ [\<lparr>fireAt = clock rt + delay, timerOrderId = orderId\<rparr>]\<rparr>"

text \<open>The callback: \<^verbatim>\<open>prev => { const updated = {...prev}; delete updated[orderId];
  return updated }\<close>.\<close>

definition clearStatusUpdate :: "js_string \<Rightarrow> OrderListState \<Rightarrow> OrderListState" where
  "clearStatusUpdate orderId s = s\<lparr>statusUpdates := (statusUpdates s)(orderId := None)\<rparr>"

text \<open>Time passes: every timer due by the new clock value runs, in the order of the due
  times (timers due together in the order they were set).\<close>

definition elapse :: "nat \<Rightarrow> Runtime \<Rightarrow> Runtime" where
  "elapse d rt =
     (let t = clock rt + d;
          due = sort_key fireAt (filter (\<lambda>tm. fireAt tm \<le> t) (pending rt))
      in rt\<lparr>ui := fold (\<lambda>tm. clearStatusUpdate (timerOrderId tm)) due (ui rt),
             clock := t,
             pending := filter (\<lambda>tm. \<not> fireAt tm \<le> t) (pending rt)\<rparr>)"

text \<open>\<^verbatim>\<open>handleStatusChange\<close> (lines 139 to 203) up to its \<^verbatim>\<open>await\<close>.\<close>

definition handleStatusChange_begin :: "js_string \<Rightarrow> Runtime \<Rightarrow> Runtime" where
  "handleStatusChange_begin orderId rt =
     rt\<lparr>ui := (ui rt)\<lparr>statusUpdates :=
            (statusUpdates (ui rt))(orderId \<mapsto> \<lparr>update_isLoading = True, update_error = None\<rparr>)\<rparr>\<rparr>"

text \<open>\<^verbatim>\<open>handleStatusChange\<close> once the remote call has settled.\<close>

definition handleStatusChange_settle :: "js_string \<Rightarrow> js_string \<Rightarrow> CallOutcome \<Rightarrow> Runtime \<Rightarrow> Runtime" where
  "handleStatusChange_settle orderId newStatus outcome rt =
     (case callFailure (ascii ''Failed to update order status'') outcome of
        None \<Rightarrow>
          setTimeout orderId 2000
            (rt\<lparr>ui := (ui rt)
               \<lparr>orders := map (\<lambda>order. if order_id order = orderId
                                        then order\<lparr>status := newStatus\<rparr> else order)
                             (orders (ui rt)),
                filteredOrders := map (\<lambda>order. if order_id order = orderId
                                        then order\<lparr>status := newStatus\<rparr> else order)
                             (filteredOrders (ui rt)),
                statusUpdates := (statusUpdates (ui rt))
                   (orderId \<mapsto> \<lparr>update_isLoading = False, update_error = None\<rparr>)\<rparr>\<rparr>)
      | Some t \<Rightarrow>
          setTimeout orderId 3000
            (rt\<lparr>ui := (ui rt)
               \<lparr>statusUpdates := (statusUpdates (ui rt))
                   (orderId \<mapsto> \<lparr>update_isLoading = False,
                               update_error = Some (errorMessage (ascii ''Failed to update status'') t)\<rparr>)\<rparr>\<rparr>))"

section \<open>Product browsing\<close>

text \<open>The remainder operator \<^verbatim>\<open>%\<close> on integers: the sign follows the dividend.\<close>

definition js_rem :: "int \<Rightarrow> int \<Rightarrow> int" where
  "js_rem a b = sgn a * (\<bar>a\<bar> mod \<bar>b\<bar>)"

definition handleViewProducts :: "OrderItem list \<Rightarrow> OrderListState \<Rightarrow> OrderListState" where
  "handleViewProducts its s =
     s\<lparr>productModal := \<lparr>modal_isOpen = True, products = its\<rparr>,
       currentProductIndex := 0, currentImageIndex := 0\<rparr>"

definition closeProductModal :: "OrderListState \<Rightarrow> OrderListState" where
  "closeProductModal s = s\<lparr>productModal := (productModal s)\<lparr>modal_isOpen := False\<rparr>\<rparr>"

definition goToNextProduct :: "OrderListState \<Rightarrow> OrderListState" where
  "goToNextProduct s =
     (if length (products (productModal s)) > 1
      then s\<lparr>currentProductIndex :=
               js_rem (currentProductIndex s + 1) (int (length (products (productModal s)))),
             currentImageIndex := 0\<rparr>
      else s)"

definition goToPrevProduct :: "OrderListState \<Rightarrow> OrderListState" where
  "goToPrevProduct s =
     (if length (products (productModal s)) > 1
      then s\<lparr>currentProductIndex :=
               js_rem (currentProductIndex s - 1 + int (length (products (productModal s))))
                      (int (length (products (productModal s)))),
             currentImageIndex := 0\<rparr>
      else s)"

section \<open>Deleting\<close>

definition closeConfirmationModal :: "OrderListState \<Rightarrow> OrderListState" where
  "closeConfirmationModal s = s\<lparr>confirmation := (confirmation s)\<lparr>isOpen := False\<rparr>\<rparr>"

text \<open>\<^verbatim>\<open>performDelete\<close> of the order list (lines 358 to 380), once the remote call has
  settled.\<close>

definition performDelete :: "Order \<Rightarrow> CallOutcome \<Rightarrow> OrderListState \<Rightarrow> OrderListState" where
  "performDelete order outcome s =
     closeConfirmationModal
       (case callFailure (ascii ''Failed to delete order'') outcome of
          None \<Rightarrow>
            s\<lparr>orders := filter (\<lambda>o'. order_id o' \<noteq> order_id order) (orders s),
              filteredOrders := filter (\<lambda>o'. order_id o' \<noteq> order_id order) (filteredOrders s)\<rparr>
        | Some t \<Rightarrow> s\<lparr>error := Some (errorMessage (ascii ''An unknown error occurred'') t)\<rparr>)"

definition handleDelete :: "Order \<Rightarrow> OrderListState \<Rightarrow> OrderListState" where
  "handleDelete order s =
     s\<lparr>confirmation :=
         \<lparr>isOpen = True, title = (ascii ''Confirm Deletion''),
          message = (ascii ''Are you sure you want to delete order for '') @ [0x22] @
                    firstName (customer order) @ (ascii '' '') @ lastName (customer order) @
                    [0x22] @ (ascii ''? This action can be reversed later.''),
          confirmButtonText = (ascii ''Delete''), cancelButtonText = (ascii ''Cancel''),
          itemToDelete = Some order, onConfirm = PerformDelete order\<rparr>\<rparr>"

text \<open>The confirm button runs the bound action; the remote outcome is that of the call
  the action makes.\<close>

definition confirmClicked :: "CallOutcome \<Rightarrow> OrderListState \<Rightarrow> OrderListState" where
  "confirmClicked outcome s =
     (case onConfirm (confirmation s) of
        NoAction \<Rightarrow> s
      | PerformDelete order \<Rightarrow> performDelete order outcome s)"

text \<open>The same flow in the stock list (part_000, lines 109 to 145).\<close>

definition stock_closeConfirmationModal :: "StockListState \<Rightarrow> StockListState" where
  "stock_closeConfirmationModal s =
     s\<lparr>stock_confirmation := (stock_confirmation s)\<lparr>isOpen := False\<rparr>\<rparr>"

definition stock_performDelete :: "Stock \<Rightarrow> CallOutcome \<Rightarrow> StockListState \<Rightarrow> StockListState" where
  "stock_performDelete st outcome s =
     stock_closeConfirmationModal
       (case callFailure (ascii ''Failed to delete stock'') outcome of
          None \<Rightarrow>
            s\<lparr>stocks := filter (\<lambda>x. stock_id x \<noteq> stock_id st) (stocks s),
              filteredStocks := filter (\<lambda>x. stock_id x \<noteq> stock_id st) (filteredStocks s)\<rparr>
        | Some t \<Rightarrow> s\<lparr>stock_error := Some (errorMessage (ascii ''An unknown error occurred'') t)\<rparr>)"

definition stock_handleDelete :: "Stock \<Rightarrow> StockListState \<Rightarrow> StockListState" where
  "stock_handleDelete st s =
     s\<lparr>stock_confirmation :=
         \<lparr>isOpen = True, title = (ascii ''Confirm Deletion''),
          message = (ascii ''Are you sure you want to delete stock for '') @ [0x22] @
                    name (product st) @ [0x22] @ (ascii '' ('') @ batchNumber st @
                    (ascii '')? This action can be reversed later.''),
          confirmButtonText = (ascii ''Delete''), cancelButtonText = (ascii ''Cancel''),
          itemToDelete = Some st, onConfirm = PerformDelete st\<rparr>\<rparr>"

definition stock_confirmClicked :: "CallOutcome \<Rightarrow> StockListState \<Rightarrow> StockListState" where
  "stock_confirmClicked outcome s =
     (case onConfirm (stock_confirmation s) of
        NoAction \<Rightarrow> s
      | PerformDelete st \<Rightarrow> stock_performDelete st outcome s)"

section \<open>Example data\<close>

definition exampleCustomer :: Customer where
  "exampleCustomer =
     \<lparr>customer_id = ascii ''c1'', firstName = ascii ''Bob'', lastName = ascii ''Li'',
      email = None, phone = ascii ''12A'', address = ascii ''1 Elm St'',
      city = ascii ''Rio'', state = ascii ''RJ''\<rparr>"

definition exampleOrder :: "string \<Rightarrow> string \<Rightarrow> Order" where
  "exampleOrder oid st =
     \<lparr>order_id = ascii oid, customer = exampleCustomer, items = [], totalAmount = 1250,
      status = ascii st, order_createdAt = ascii ''2025-01-01'', deletedAt = 0\<rparr>"

definition exampleProduct :: Product where
  "exampleProduct =
     \<lparr>product_id = ascii ''p1'', name = ascii ''Shirt'', productCode = ascii ''SH1'',
      description = ascii ''Plain'', product_size = ascii ''M'', color = ascii ''Red'',
      product_price = 1250, category = ascii ''Tops'', images = [],
      product_createdAt = ascii ''2025-01-01''\<rparr>"

definition exampleStock :: "string \<Rightarrow> Stock" where
  "exampleStock sid =
     \<lparr>stock_id = ascii sid, product = exampleProduct, batchNumber = ascii ''B7'',
      stock_quantity = 4, stock_size = ascii ''M'', stock_price = 1250, lowStockAlert = 5,
      lastRestocked = ascii ''2025-01-01'', supplier = ascii ''Acme'',
      stock_createdAt = ascii ''2025-01-01''\<rparr>"

definition exampleItem :: "string \<Rightarrow> OrderItem" where
  "exampleItem iid = \<lparr>item_id = ascii iid, stock = exampleStock ''s1'', item_quantity = 1\<rparr>"

text \<open>The scenario of the specification: two pending orders \<open>a\<close> and \<open>b\<close>, as loaded.\<close>

definition exampleOrders :: "Order list" where
  "exampleOrders = [exampleOrder ''a'' ''Pending'', exampleOrder ''b'' ''Pending'']"

definition exampleOrderEnvelope :: "Order Envelope" where
  "exampleOrderEnvelope =
     \<lparr>envelope_status = ascii ''SUCCESS'', envelope_data = exampleOrders,
      envelope_message = None\<rparr>"

definition exampleOrderList :: OrderListState where
  "exampleOrderList = loadData (LoadResponse True (Inr exampleOrderEnvelope)) initialOrderList"

definition exampleRuntime :: Runtime where
  "exampleRuntime = \<lparr>ui = exampleOrderList, clock = 0, pending = []\<rparr>"

definition exampleStocks :: "Stock list" where
  "exampleStocks = [exampleStock ''s1'', exampleStock ''s2'']"

definition exampleStockEnvelope :: "Stock Envelope" where
  "exampleStockEnvelope =
     \<lparr>envelope_status = ascii ''SUCCESS'', envelope_data = exampleStocks,
      envelope_message = None\<rparr>"

definition exampleStockList :: StockListState where
  "exampleStockList = fetchStocks (LoadResponse True (Inr exampleStockEnvelope)) initialStockList"

text \<open>The user types \<open>pending\<close> into the search box of the loaded order list: the state
  right after the keystroke, and the call that waits for the debounce.\<close>

definition exampleTyped :: "OrderListState \<times> Order SearchCall" where
  "exampleTyped = handleSearchInputChange (ascii ''pending'') exampleOrderList"

text \<open>The waiting call fires with nothing in between.\<close>

definition exampleSearchedRuntime :: Runtime where
  "exampleSearchedRuntime =
     \<lparr>ui = searchFires asciiToLowerCase (snd exampleTyped) (fst exampleTyped),
      clock = 0, pending = []\<rparr>"






text \<open>
  Two updates of order \<open>a\<close> in a row.  The first succeeds at time 0.  The select is
  enabled again, the user picks another status, and the second update settles at 600 ms
  with the given outcome.
\<close>

definition exampleFirstUpdate :: Runtime where
  "exampleFirstUpdate =
     handleStatusChange_settle (ascii ''a'') (ascii ''Shipped'') (CallResponse True)
       (handleStatusChange_begin (ascii ''a'') exampleRuntime)"

definition exampleSecondUpdate :: "CallOutcome \<Rightarrow> Runtime" where
  "exampleSecondUpdate outcome =
     handleStatusChange_settle (ascii ''a'') (ascii ''Delivered'') outcome
       (handleStatusChange_begin (ascii ''a'') (elapse 600 exampleFirstUpdate))"

text \<open>A third update of order \<open>a\<close> starts at 1900 ms and is still in flight.\<close>

definition exampleUpdateInFlight :: Runtime where
  "exampleUpdateInFlight =
     handleStatusChange_begin (ascii ''a'') (elapse 1900 exampleFirstUpdate)"

section \<open>Outcomes of a list load, as the contract classifies them\<close>

text \<open>
  A load succeeds when the response is ok (2xx) and its body is an envelope whose status
  is \<open>SUCCESS\<close>; the array it returns is then the envelope's data.
\<close>

definition loadSucceeds :: "'a LoadOutcome \<Rightarrow> bool" where
  "loadSucceeds outcome =
     (case outcome of
        LoadResponse ok (Inr result) \<Rightarrow> ok \<and> envelope_status result = (ascii ''SUCCESS'')
      | _ \<Rightarrow> False)"

definition loadedData :: "'a LoadOutcome \<Rightarrow> 'a list" where
  "loadedData outcome =
     (case outcome of LoadResponse ok (Inr result) \<Rightarrow> envelope_data result | _ \<Rightarrow> [])"

section \<open>Auxiliary facts\<close>






text \<open>Distinct ASCII literals have distinct code units.\<close>

lemma unat_of_char16: "unat (of_char c :: 16 word) = of_char c"
proof -
  have "(of_char c :: nat) < 256"
    by (rule nat_of_char_less_256)
  also have "(256 :: nat) < 2 ^ 16"
    by simp
  finally have small: "(of_char c :: nat) < 2 ^ 16" .
  have "(of_char c :: 16 word) = of_nat (of_char c)"
    by (simp only: of_nat_of_char)
  then have "unat (of_char c :: 16 word) = unat (of_nat (of_char c) :: 16 word)"
    by simp
  also have "\<dots> = of_char c"
    using small by (simp add: unat_of_nat)
  finally show ?thesis .
qed

lemma ascii_eq_iff: "ascii s = ascii t \<longleftrightarrow> s = t"
proof -
  have "inj (of_char :: char \<Rightarrow> 16 word)"
    by (rule injI) (metis unat_of_char16 of_char_eq_iff)
  then show ?thesis
    by (simp add: ascii_def)
qed

text \<open>Replacing by key in a list with distinct keys changes the one position that holds
  the key.\<close>

lemma replace_unique:
  assumes "distinct (map key xs)" and "i < length xs" and "key (xs ! i) = k"
  shows "map (\<lambda>x. if key x = k then g x else x) xs = xs[i := g (xs ! i)]"
proof (rule nth_equalityI)
  show "length (map (\<lambda>x. if key x = k then g x else x) xs) = length (xs[i := g (xs ! i)])"
    by simp
next
  fix j
  assume "j < length (map (\<lambda>x. if key x = k then g x else x) xs)"
  then have j: "j < length xs" by simp
  have "key (xs ! j) = k \<longleftrightarrow> j = i"
    using assms j nth_eq_iff_index_eq [of "map key xs" j i] by auto
  then show "map (\<lambda>x. if key x = k then g x else x) xs ! j = xs[i := g (xs ! i)] ! j"
    using j assms(2) by (auto simp: nth_list_update)
qed

lemma remove_absent:
  "k \<notin> key ` set xs \<Longrightarrow> filter (\<lambda>x. key x \<noteq> k) xs = xs"
  by (induction xs) auto

text \<open>Removing by key from a list with distinct keys drops the one position that holds
  the key.\<close>

lemma remove_unique:
  assumes "distinct (map key xs)" and "i < length xs" and "key (xs ! i) = k"
  shows "filter (\<lambda>x. key x \<noteq> k) xs = take i xs @ drop (Suc i) xs"
proof -
  have split: "xs = take i xs @ xs ! i # drop (Suc i) xs"
    using assms(2) by (rule id_take_nth_drop)
  have "distinct (map key (take i xs @ xs ! i # drop (Suc i) xs))"
    using assms(1) split by simp
  then have "k \<notin> key ` set (take i xs)" and "k \<notin> key ` set (drop (Suc i) xs)"
    using assms(3) by auto
  then have "filter (\<lambda>x. key x \<noteq> k) (take i xs) = take i xs"
    and "filter (\<lambda>x. key x \<noteq> k) (drop (Suc i) xs) = drop (Suc i) xs"
    by (simp_all add: remove_absent)
  moreover have "filter (\<lambda>x. key x \<noteq> k) xs =
      filter (\<lambda>x. key x \<noteq> k) (take i xs) @ filter (\<lambda>x. key x \<noteq> k) (xs ! i # drop (Suc i) xs)"
    by (subst split) (simp only: filter_append)
  ultimately show ?thesis using assms(3) by simp
qed

text \<open>Evaluation of the example data.\<close>

lemmas string_eval = ascii_def asciiToLowerCase_def

lemmas example_eval =
  exampleCustomer_def exampleOrder_def exampleProduct_def exampleStock_def exampleItem_def
  exampleOrders_def exampleOrderEnvelope_def exampleOrderList_def exampleRuntime_def
  exampleStocks_def exampleStockEnvelope_def exampleStockList_def
  initialOrderList_def initialStockList_def initialConfirmation_def
  loadData_def loadData_begin_def loadData_settle_def
  fetchStocks_def fetchStocks_begin_def fetchStocks_settle_def loadResult_def

lemma exampleOrderList_orders:
  "orders exampleOrderList = exampleOrders" "filteredOrders exampleOrderList = exampleOrders"
  by (simp_all add: example_eval)

lemma exampleStockList_stocks:
  "stocks exampleStockList = exampleStocks" "filteredStocks exampleStockList = exampleStocks"
  by (simp_all add: example_eval)

lemma js_rem_nonneg: "0 \<le> a \<Longrightarrow> 0 < b \<Longrightarrow> js_rem a b = a mod b"
  by (cases "a = 0") (simp_all add: js_rem_def)

lemma goToNextProduct_index:
  assumes "1 < length (products (productModal s))" and "0 \<le> currentProductIndex s"
  shows "currentProductIndex (goToNextProduct s) =
           (currentProductIndex s + 1) mod int (length (products (productModal s)))"
proof -
  have "0 \<le> currentProductIndex s + 1"
    using assms by linarith
  moreover have "0 < int (length (products (productModal s)))"
    using assms by linarith
  ultimately have "js_rem (currentProductIndex s + 1) (int (length (products (productModal s)))) =
      (currentProductIndex s + 1) mod int (length (products (productModal s)))"
    by (rule js_rem_nonneg)
  then show ?thesis
    using assms by (simp add: goToNextProduct_def)
qed

lemma goToPrevProduct_index:
  assumes "1 < length (products (productModal s))" and "0 \<le> currentProductIndex s"
  shows "currentProductIndex (goToPrevProduct s) =
           (currentProductIndex s - 1 + int (length (products (productModal s))))
             mod int (length (products (productModal s)))"
proof -
  have "0 \<le> currentProductIndex s - 1 + int (length (products (productModal s)))"
    using assms by linarith
  moreover have "0 < int (length (products (productModal s)))"
    using assms by linarith
  ultimately have "js_rem (currentProductIndex s - 1 + int (length (products (productModal s))))
        (int (length (products (productModal s)))) =
      (currentProductIndex s - 1 + int (length (products (productModal s))))
        mod int (length (products (productModal s)))"
    by (rule js_rem_nonneg)
  then show ?thesis
    using assms by (simp add: goToPrevProduct_def)
qed

lemma goTo_products_unchanged:
  "products (productModal (goToNextProduct s)) = products (productModal s)"
  "products (productModal (goToPrevProduct s)) = products (productModal s)"
  by (simp_all add: goToNextProduct_def goToPrevProduct_def)

lemma fold_clear_statusUpdates:
  "statusUpdates (fold (\<lambda>tm. clearStatusUpdate (timerOrderId tm)) tms s) k =
     (if k \<in> timerOrderId ` set tms then None else statusUpdates s k)"
  by (induction tms arbitrary: s) (auto simp: clearStatusUpdate_def)

lemma elapse_statusUpdates:
  "statusUpdates (ui (elapse d rt)) k =
     (if \<exists>tm \<in> set (pending rt). fireAt tm \<le> clock rt + d \<and> timerOrderId tm = k
      then None else statusUpdates (ui rt) k)"
  by (auto simp: elapse_def Let_def fold_clear_statusUpdates)

lemma settle_pending:
  "pending (handleStatusChange_settle X S outcome rt) =
     pending rt @ [\<lparr>fireAt = clock rt + (if outcome = CallResponse True then 2000 else 3000),
                   timerOrderId = X\<rparr>]"
  by (cases outcome) (auto simp: handleStatusChange_settle_def callFailure_def setTimeout_def)

lemma settle_clock: "clock (handleStatusChange_settle X S outcome rt) = clock rt"
  by (cases outcome) (auto simp: handleStatusChange_settle_def callFailure_def setTimeout_def)

lemma elapse_clock: "clock (elapse d rt) = clock rt + d"
  by (simp add: elapse_def Let_def)

lemma elapse_pending:
  "pending (elapse d rt) = filter (\<lambda>tm. \<not> fireAt tm \<le> clock rt + d) (pending rt)"
  by (simp add: elapse_def Let_def)

lemma begin_clock: "clock (handleStatusChange_begin X rt) = clock rt"
  by (simp add: handleStatusChange_begin_def)

lemma begin_pending: "pending (handleStatusChange_begin X rt) = pending rt"
  by (simp add: handleStatusChange_begin_def)

lemma begin_statusUpdates:
  "statusUpdates (ui (handleStatusChange_begin X rt)) =
     (statusUpdates (ui rt))(X \<mapsto> \<lparr>update_isLoading = True, update_error = None\<rparr>)"
  by (simp add: handleStatusChange_begin_def)

text \<open>What holds of every update: once its delay has passed the record of the id is
  gone, and a timer's callback touches the entry of its own id only.\<close>

lemma record_gone_after_delay:
  "(if outcome = CallResponse True then 2000 else 3000) \<le> d \<Longrightarrow>
   statusUpdates (ui (elapse d (handleStatusChange_settle X S outcome rt))) X = None"
  by (simp add: elapse_statusUpdates settle_pending settle_clock split: if_splits)

lemma timer_clears_own_id_only:
  "statusUpdates (clearStatusUpdate X s) X = None"
  "Y \<noteq> X \<Longrightarrow> statusUpdates (clearStatusUpdate X s) Y = statusUpdates s Y"
  by (simp_all add: clearStatusUpdate_def)

lemma settle_statusUpdates:
  "statusUpdates (ui (handleStatusChange_settle X S outcome rt)) =
     (statusUpdates (ui rt))
       (X \<mapsto> \<lparr>update_isLoading = False,
              update_error =
                (case callFailure (ascii ''Failed to update order status'') outcome of
                   None \<Rightarrow> None
                 | Some t \<Rightarrow> Some (errorMessage (ascii ''Failed to update status'') t))\<rparr>)"
  by (cases outcome) (auto simp: handleStatusChange_settle_def callFailure_def setTimeout_def)

lemma callFailure_ok: "callFailure notOk (CallResponse True) = None"
  by (simp add: callFailure_def)

lemma callFailure_failed:
  "outcome \<noteq> CallResponse True \<Longrightarrow> \<exists>t. callFailure notOk outcome = Some t"
  by (cases outcome) (auto simp: callFailure_def)

lemma performDelete_ok:
  "orders (performDelete order (CallResponse True) s) =
     filter (\<lambda>x. order_id x \<noteq> order_id order) (orders s)"
  "filteredOrders (performDelete order (CallResponse True) s) =
     filter (\<lambda>x. order_id x \<noteq> order_id order) (filteredOrders s)"
  by (simp_all add: performDelete_def closeConfirmationModal_def callFailure_ok)

lemma performDelete_failed:
  assumes "outcome \<noteq> CallResponse True"
  shows "orders (performDelete order outcome s) = orders s"
    and "filteredOrders (performDelete order outcome s) = filteredOrders s"
    and "\<exists>msg. error (performDelete order outcome s) = Some msg"
  using callFailure_failed [OF assms, of "(ascii ''Failed to delete order'')"]
  by (auto simp: performDelete_def closeConfirmationModal_def)

lemma performDelete_absent:
  "order_id order \<notin> order_id ` set (orders s) \<Longrightarrow>
     orders (performDelete order outcome s) = orders s"
  "order_id order \<notin> order_id ` set (filteredOrders s) \<Longrightarrow>
     filteredOrders (performDelete order outcome s) = filteredOrders s"
  by (cases "outcome = CallResponse True";
      simp add: performDelete_ok performDelete_failed remove_absent)+

lemma stock_performDelete_ok:
  "stocks (stock_performDelete st (CallResponse True) t) =
     filter (\<lambda>x. stock_id x \<noteq> stock_id st) (stocks t)"
  "filteredStocks (stock_performDelete st (CallResponse True) t) =
     filter (\<lambda>x. stock_id x \<noteq> stock_id st) (filteredStocks t)"
  by (simp_all add: stock_performDelete_def stock_closeConfirmationModal_def callFailure_ok)

lemma stock_performDelete_failed:
  assumes "outcome \<noteq> CallResponse True"
  shows "stocks (stock_performDelete st outcome t) = stocks t"
    and "filteredStocks (stock_performDelete st outcome t) = filteredStocks t"
    and "\<exists>msg. stock_error (stock_performDelete st outcome t) = Some msg"
  using callFailure_failed [OF assms, of "(ascii ''Failed to delete stock'')"]
  by (auto simp: stock_performDelete_def stock_closeConfirmationModal_def)

lemma stock_performDelete_absent:
  "stock_id st \<notin> stock_id ` set (stocks t) \<Longrightarrow>
     stocks (stock_performDelete st outcome t) = stocks t"
  "stock_id st \<notin> stock_id ` set (filteredStocks t) \<Longrightarrow>
     filteredStocks (stock_performDelete st outcome t) = filteredStocks t"
  by (cases "outcome = CallResponse True";
      simp add: stock_performDelete_ok stock_performDelete_failed remove_absent)+

lemma remove_unique_length:
  assumes "distinct (map key xs)" and "i < length xs" and "key (xs ! i) = k"
  shows "Suc (length (filter (\<lambda>x. key x \<noteq> k) xs)) = length xs"
  using assms by (simp add: remove_unique [OF assms])

lemma example_ids:
  "order_id (exampleOrder oid st) = ascii oid" "stock_id (exampleStock sid) = ascii sid"
  by (simp_all add: exampleOrder_def exampleStock_def)

lemma remove_commutes_with_search:
  "filter (\<lambda>x. key x \<noteq> k) (filter P xs) = filter P (filter (\<lambda>x. key x \<noteq> k) xs)"
  by (induction xs) auto

section \<open>Search and filter\<close>







text \<open>
  Claim C6 holds of four of the five order fields and of the four stock fields; on the
  phone the code compares the query as typed.  The example customer's phone is \<open>12A\<close>
  and occurs in no other field.  The query \<open>a\<close>, with case folded, occurs in the phone
  with case folded, and the predicate of the code rejects the order; it accepts the query
  \<open>A\<close>.  The first name \<open>Bob\<close> is matched by \<open>bo\<close> and by \<open>BO\<close> alike.
\<close>

theorem phone_match_is_case_sensitive:
  "\<not> orderMatches asciiToLowerCase (ascii ''a'') (exampleOrder ''a'' ''Pending'') \<and>
   str_includes (asciiToLowerCase (phone (customer (exampleOrder ''a'' ''Pending''))))
     (asciiToLowerCase (ascii ''a'')) \<and>
   orderMatches asciiToLowerCase (ascii ''A'') (exampleOrder ''a'' ''Pending'') \<and>
   orderMatches asciiToLowerCase (ascii ''bo'') (exampleOrder ''a'' ''Pending'') \<and>
   orderMatches asciiToLowerCase (ascii ''BO'') (exampleOrder ''a'' ''Pending'')"
  by (simp add: orderMatches_def exampleOrder_def exampleCustomer_def string_eval)

section \<open>Status updates\<close>

text \<open>
  Claim C1.  When the remote update of order \<open>X\<close> to status \<open>S\<close> succeeds, the
  canonical and the filtered collection keep their lengths, and at every position the new
  record is the old one with status \<open>S\<close> if its id is \<open>X\<close>, and the old record itself
  otherwise.  When the ids of a collection are distinct and position \<open>i\<close> holds \<open>X\<close>,
  the new collection is the old one with position \<open>i\<close> alone replaced.
\<close>

theorem status_update_replaces_by_id:
  "length (orders (ui (handleStatusChange_settle X S (CallResponse True) rt))) =
     length (orders (ui rt)) \<and>
   length (filteredOrders (ui (handleStatusChange_settle X S (CallResponse True) rt))) =
     length (filteredOrders (ui rt)) \<and>
   (\<forall>i < length (orders (ui rt)).
      orders (ui (handleStatusChange_settle X S (CallResponse True) rt)) ! i =
        (if order_id (orders (ui rt) ! i) = X
         then (orders (ui rt) ! i)\<lparr>status := S\<rparr> else orders (ui rt) ! i)) \<and>
   (\<forall>i < length (filteredOrders (ui rt)).
      filteredOrders (ui (handleStatusChange_settle X S (CallResponse True) rt)) ! i =
        (if order_id (filteredOrders (ui rt) ! i) = X
         then (filteredOrders (ui rt) ! i)\<lparr>status := S\<rparr> else filteredOrders (ui rt) ! i)) \<and>
   (\<forall>i < length (orders (ui rt)).
      distinct (map order_id (orders (ui rt))) \<and> order_id (orders (ui rt) ! i) = X \<longrightarrow>
      orders (ui (handleStatusChange_settle X S (CallResponse True) rt)) =
        (orders (ui rt))[i := (orders (ui rt) ! i)\<lparr>status := S\<rparr>]) \<and>
   (\<forall>i < length (filteredOrders (ui rt)).
      distinct (map order_id (filteredOrders (ui rt))) \<and>
      order_id (filteredOrders (ui rt) ! i) = X \<longrightarrow>
      filteredOrders (ui (handleStatusChange_settle X S (CallResponse True) rt)) =
        (filteredOrders (ui rt))[i := (filteredOrders (ui rt) ! i)\<lparr>status := S\<rparr>])"
  by (simp add: handleStatusChange_settle_def callFailure_def setTimeout_def replace_unique)

theorem status_update_replaces_by_id_witness:
  "orders (ui (handleStatusChange_settle (ascii ''a'') (ascii ''Shipped'') (CallResponse True) exampleRuntime)) =
     [exampleOrder ''a'' ''Shipped'', exampleOrder ''b'' ''Pending''] \<and>
   filteredOrders (ui (handleStatusChange_settle (ascii ''a'') (ascii ''Shipped'') (CallResponse True) exampleRuntime)) =
     [exampleOrder ''a'' ''Shipped'', exampleOrder ''b'' ''Pending'']"
  using status_update_replaces_by_id [of "(ascii ''a'')" "(ascii ''Shipped'')" exampleRuntime]
  by (simp add: exampleRuntime_def exampleOrderList_orders exampleOrders_def exampleOrder_def
      ascii_eq_iff All_less_Suc2 numeral_2_eq_2)

text \<open>
  Claim C2.  When the remote update fails (the request is rejected, or the response is
  not ok), the canonical and the filtered collection are unchanged, so every status is
  the previous one, and the record of the order id is in the error state: not loading,
  with a message (the thrown error's, or the fallback).
\<close>

theorem failed_status_update_keeps_collections:
  "outcome \<noteq> CallResponse True \<Longrightarrow>
   orders (ui (handleStatusChange_settle X S outcome rt)) = orders (ui rt) \<and>
   filteredOrders (ui (handleStatusChange_settle X S outcome rt)) = filteredOrders (ui rt) \<and>
   map status (orders (ui (handleStatusChange_settle X S outcome rt))) =
     map status (orders (ui rt)) \<and>
   (\<exists>msg. statusUpdates (ui (handleStatusChange_settle X S outcome rt)) X =
            Some \<lparr>update_isLoading = False, update_error = Some msg\<rparr> \<and>
          msg = (case outcome of
                   CallResponse ok \<Rightarrow> (ascii ''Failed to update order status'')
                 | CallRejected (ErrorInstance m) \<Rightarrow> m
                 | CallRejected OtherValue \<Rightarrow> (ascii ''Failed to update status'')))"
  by (cases outcome)
     (auto simp: handleStatusChange_settle_def callFailure_def setTimeout_def errorMessage_def
           split: Thrown.splits)

theorem failed_status_update_keeps_collections_witness:
  "CallResponse False \<noteq> CallResponse True \<and>
   orders (ui (handleStatusChange_settle (ascii ''a'') (ascii ''Shipped'') (CallResponse False) exampleRuntime)) =
     [exampleOrder ''a'' ''Pending'', exampleOrder ''b'' ''Pending''] \<and>
   filteredOrders (ui (handleStatusChange_settle (ascii ''a'') (ascii ''Shipped'') (CallResponse False) exampleRuntime)) =
     [exampleOrder ''a'' ''Pending'', exampleOrder ''b'' ''Pending''] \<and>
   statusUpdates (ui (handleStatusChange_settle (ascii ''a'') (ascii ''Shipped'') (CallResponse False) exampleRuntime)) (ascii ''a'') =
     Some \<lparr>update_isLoading = False, update_error = Some (ascii ''Failed to update order status'')\<rparr>"
  using failed_status_update_keeps_collections
          [of "CallResponse False" "(ascii ''a'')" "(ascii ''Shipped'')" exampleRuntime]
  by (simp add: exampleRuntime_def exampleOrderList_orders exampleOrders_def)

text \<open>
  Claim C7 against the code.  Each timer deletes the entry of its own order id only, but
  it is keyed by the id alone and not by the update that set it.  Order \<open>a\<close> is
  updated at time 0 and again at 600 ms.  The record of the second update is there at
  600 ms and still 1399 ms later; 1400 ms after the second update the timer of the first
  one fires and deletes it, 600 ms before its own 2000 ms are over.  When the second
  update fails, its error record is deleted after the same 1400 ms and not after 3000 ms.
  When an update is in flight at 1900 ms, the timer of the first one deletes its loading
  record 100 ms later.
\<close>

theorem second_update_cleared_early:
  "clock (exampleSecondUpdate (CallResponse True)) = 600 \<and>
   statusUpdates (ui (exampleSecondUpdate (CallResponse True))) (ascii ''a'') =
     Some \<lparr>update_isLoading = False, update_error = None\<rparr> \<and>
   statusUpdates (ui (elapse 1399 (exampleSecondUpdate (CallResponse True)))) (ascii ''a'') =
     Some \<lparr>update_isLoading = False, update_error = None\<rparr> \<and>
   statusUpdates (ui (elapse 1400 (exampleSecondUpdate (CallResponse True)))) (ascii ''a'') =
     None \<and>
   statusUpdates (ui (exampleSecondUpdate (CallResponse False))) (ascii ''a'') =
     Some \<lparr>update_isLoading = False,
           update_error = Some (ascii ''Failed to update order status'')\<rparr> \<and>
   statusUpdates (ui (elapse 1399 (exampleSecondUpdate (CallResponse False)))) (ascii ''a'') =
     Some \<lparr>update_isLoading = False,
           update_error = Some (ascii ''Failed to update order status'')\<rparr> \<and>
   statusUpdates (ui (elapse 1400 (exampleSecondUpdate (CallResponse False)))) (ascii ''a'') =
     None \<and>
   clock exampleUpdateInFlight = 1900 \<and>
   statusUpdates (ui exampleUpdateInFlight) (ascii ''a'') =
     Some \<lparr>update_isLoading = True, update_error = None\<rparr> \<and>
   statusUpdates (ui (elapse 100 exampleUpdateInFlight)) (ascii ''a'') = None"
  by (simp add: exampleSecondUpdate_def exampleUpdateInFlight_def exampleFirstUpdate_def
      exampleRuntime_def elapse_statusUpdates elapse_clock elapse_pending
      settle_statusUpdates settle_pending settle_clock
      begin_statusUpdates begin_pending begin_clock callFailure_def errorMessage_def)

section \<open>Loading\<close>

text \<open>
  Claim C3.  A load that succeeds stores the returned array in both collections and sets
  no error.  Any other load leaves both collections as they were, which on the initial
  state is empty, and sets one error message.  From the initial state the two collections
  are equal after every load, and the loading flag is cleared.  This holds for the order
  list and for the stock list.
\<close>

theorem load_is_all_or_nothing:
  "(loadSucceeds oo \<longrightarrow>
      orders (loadData oo s) = loadedData oo \<and> filteredOrders (loadData oo s) = loadedData oo \<and>
      error (loadData oo s) = None) \<and>
   (\<not> loadSucceeds oo \<longrightarrow>
      orders (loadData oo s) = orders s \<and> filteredOrders (loadData oo s) = filteredOrders s \<and>
      (\<exists>msg. error (loadData oo s) = Some msg) \<and>
      orders (loadData oo initialOrderList) = [] \<and>
      filteredOrders (loadData oo initialOrderList) = []) \<and>
   orders (loadData oo initialOrderList) = filteredOrders (loadData oo initialOrderList) \<and>
   \<not> isLoading (loadData oo s) \<and>
   (loadSucceeds so \<longrightarrow>
      stocks (fetchStocks so t) = loadedData so \<and> filteredStocks (fetchStocks so t) = loadedData so \<and>
      stock_error (fetchStocks so t) = None) \<and>
   (\<not> loadSucceeds so \<longrightarrow>
      stocks (fetchStocks so t) = stocks t \<and> filteredStocks (fetchStocks so t) = filteredStocks t \<and>
      (\<exists>msg. stock_error (fetchStocks so t) = Some msg) \<and>
      stocks (fetchStocks so initialStockList) = [] \<and>
      filteredStocks (fetchStocks so initialStockList) = []) \<and>
   stocks (fetchStocks so initialStockList) = filteredStocks (fetchStocks so initialStockList) \<and>
   \<not> stock_isLoading (fetchStocks so t)"
  by (simp add: loadSucceeds_def loadedData_def loadData_def loadData_begin_def loadData_settle_def
        fetchStocks_def fetchStocks_begin_def fetchStocks_settle_def loadResult_def
        initialOrderList_def initialStockList_def
      split: LoadOutcome.split sum.split)

theorem load_is_all_or_nothing_witness:
  "loadSucceeds (LoadResponse True (Inr exampleOrderEnvelope)) \<and>
   orders (loadData (LoadResponse True (Inr exampleOrderEnvelope)) initialOrderList) = exampleOrders \<and>
   filteredOrders (loadData (LoadResponse True (Inr exampleOrderEnvelope)) initialOrderList) =
     exampleOrders \<and>
   \<not> loadSucceeds (LoadResponse False (Inr exampleStockEnvelope)) \<and>
   stocks (fetchStocks (LoadResponse False (Inr exampleStockEnvelope)) initialStockList) = [] \<and>
   filteredStocks (fetchStocks (LoadResponse False (Inr exampleStockEnvelope)) initialStockList) = [] \<and>
   stock_error (fetchStocks (LoadResponse False (Inr exampleStockEnvelope)) initialStockList) =
     Some (ascii ''Failed to fetch stocks'') \<and>
   \<not> loadSucceeds
       (LoadResponse True (Inr (exampleOrderEnvelope\<lparr>envelope_status := (ascii ''ERROR'')\<rparr>))) \<and>
   orders (loadData (LoadResponse True (Inr (exampleOrderEnvelope\<lparr>envelope_status := (ascii ''ERROR'')\<rparr>)))
             initialOrderList) = [] \<and>
   filteredOrders
     (loadData (LoadResponse True (Inr (exampleOrderEnvelope\<lparr>envelope_status := (ascii ''ERROR'')\<rparr>)))
        initialOrderList) = [] \<and>
   error (loadData (LoadResponse True (Inr (exampleOrderEnvelope\<lparr>envelope_status := (ascii ''ERROR'')\<rparr>)))
            initialOrderList) = Some (ascii ''Failed to fetch orders'') \<and>
   loadSucceeds (LoadResponse True (Inr exampleStockEnvelope)) \<and>
   stocks (fetchStocks (LoadResponse True (Inr exampleStockEnvelope)) initialStockList) =
     exampleStocks \<and>
   filteredStocks (fetchStocks (LoadResponse True (Inr exampleStockEnvelope)) initialStockList) =
     exampleStocks"
  using load_is_all_or_nothing
          [of "LoadResponse True (Inr exampleOrderEnvelope)" initialOrderList
              "LoadResponse False (Inr exampleStockEnvelope)" initialStockList]
        load_is_all_or_nothing
          [of "LoadResponse True (Inr (exampleOrderEnvelope\<lparr>envelope_status := (ascii ''ERROR'')\<rparr>))"
              initialOrderList
              "LoadResponse True (Inr exampleStockEnvelope)" initialStockList]
  by (simp add: loadSucceeds_def loadedData_def exampleOrderEnvelope_def exampleStockEnvelope_def
      fetchStocks_def fetchStocks_begin_def fetchStocks_settle_def
      loadData_def loadData_begin_def loadData_settle_def loadResult_def errorMessage_def
      orElse_def ascii_eq_iff)

section \<open>Browsing the products of an order\<close>

text \<open>
  Claim C8.  With \<open>n\<close> items and a current index \<open>i \<ge> 0\<close>: when \<open>n > 1\<close>,
  \<open>goToNextProduct\<close> sets the index to \<open>(i + 1) mod n\<close> and \<open>goToPrevProduct\<close> to
  \<open>(i - 1 + n) mod n\<close>, both within \<open>0 \<dots> n - 1\<close>; when \<open>n \<le> 1\<close> both leave the
  state unchanged.  With three items and index 0, three steps forward return to 0 and one
  step back lands on 2.  The index is never negative: it is 0 initially and whenever the
  overlay is opened, and both steps keep it within range.
\<close>

theorem product_navigation_is_circular:
  "(1 < length (products (productModal s)) \<and> 0 \<le> currentProductIndex s \<longrightarrow>
      currentProductIndex (goToNextProduct s) =
        (currentProductIndex s + 1) mod int (length (products (productModal s))) \<and>
      currentProductIndex (goToPrevProduct s) =
        (currentProductIndex s - 1 + int (length (products (productModal s))))
          mod int (length (products (productModal s))) \<and>
      0 \<le> currentProductIndex (goToNextProduct s) \<and>
      currentProductIndex (goToNextProduct s) < int (length (products (productModal s))) \<and>
      0 \<le> currentProductIndex (goToPrevProduct s) \<and>
      currentProductIndex (goToPrevProduct s) < int (length (products (productModal s)))) \<and>
   (length (products (productModal s)) \<le> 1 \<longrightarrow>
      goToNextProduct s = s \<and> goToPrevProduct s = s) \<and>
   (length (products (productModal s)) = 3 \<and> currentProductIndex s = 0 \<longrightarrow>
      currentProductIndex (goToNextProduct s) = 1 \<and>
      currentProductIndex (goToNextProduct (goToNextProduct s)) = 2 \<and>
      currentProductIndex (goToNextProduct (goToNextProduct (goToNextProduct s))) = 0 \<and>
      currentProductIndex (goToPrevProduct s) = 2) \<and>
   currentProductIndex initialOrderList = 0 \<and>
   currentProductIndex (handleViewProducts its s) = 0"
proof (intro conjI impI)
  assume "1 < length (products (productModal s)) \<and> 0 \<le> currentProductIndex s"
  then have n: "1 < length (products (productModal s))" and i: "0 \<le> currentProductIndex s"
    by simp_all
  have pos: "0 < int (length (products (productModal s)))"
    using n by linarith
  show nxt: "currentProductIndex (goToNextProduct s) =
      (currentProductIndex s + 1) mod int (length (products (productModal s)))"
    using n i by (rule goToNextProduct_index)
  show prv: "currentProductIndex (goToPrevProduct s) =
      (currentProductIndex s - 1 + int (length (products (productModal s))))
        mod int (length (products (productModal s)))"
    using n i by (rule goToPrevProduct_index)
  show "0 \<le> currentProductIndex (goToNextProduct s)"
    unfolding nxt using pos by (rule pos_mod_sign)
  show "currentProductIndex (goToNextProduct s) < int (length (products (productModal s)))"
    unfolding nxt using pos by (rule pos_mod_bound)
  show "0 \<le> currentProductIndex (goToPrevProduct s)"
    unfolding prv using pos by (rule pos_mod_sign)
  show "currentProductIndex (goToPrevProduct s) < int (length (products (productModal s)))"
    unfolding prv using pos by (rule pos_mod_bound)
next
  assume "length (products (productModal s)) \<le> 1"
  then show "goToNextProduct s = s" and "goToPrevProduct s = s"
    by (simp_all add: goToNextProduct_def goToPrevProduct_def)
next
  assume "length (products (productModal s)) = 3 \<and> currentProductIndex s = 0"
  then have n: "length (products (productModal s)) = 3" and i: "currentProductIndex s = 0"
    by simp_all
  show one: "currentProductIndex (goToNextProduct s) = 1"
    using goToNextProduct_index [of s] n i by simp
  show two: "currentProductIndex (goToNextProduct (goToNextProduct s)) = 2"
    using goToNextProduct_index [of "goToNextProduct s"] n one
    by (simp add: goTo_products_unchanged)
  show "currentProductIndex (goToNextProduct (goToNextProduct (goToNextProduct s))) = 0"
    using goToNextProduct_index [of "goToNextProduct (goToNextProduct s)"] n two
    by (simp add: goTo_products_unchanged)
  show "currentProductIndex (goToPrevProduct s) = 2"
    using goToPrevProduct_index [of s] n i by simp
next
  show "currentProductIndex initialOrderList = 0"
    by (simp add: initialOrderList_def)
next
  show "currentProductIndex (handleViewProducts its s) = 0"
    by (simp add: handleViewProducts_def)
qed

theorem product_navigation_is_circular_witness:
  "currentProductIndex
     (goToNextProduct (goToNextProduct (goToNextProduct
        (handleViewProducts [exampleItem ''x'', exampleItem ''y'', exampleItem ''z''] exampleOrderList)))) = 0 \<and>
   currentProductIndex
     (goToPrevProduct
        (handleViewProducts [exampleItem ''x'', exampleItem ''y'', exampleItem ''z''] exampleOrderList)) = 2 \<and>
   currentProductIndex
     (goToNextProduct
        (handleViewProducts [exampleItem ''x'', exampleItem ''y'', exampleItem ''z''] exampleOrderList)) = 1 \<and>
   goToNextProduct (handleViewProducts [exampleItem ''x''] exampleOrderList) =
     handleViewProducts [exampleItem ''x''] exampleOrderList \<and>
   goToPrevProduct (handleViewProducts [exampleItem ''x''] exampleOrderList) =
     handleViewProducts [exampleItem ''x''] exampleOrderList"
  using product_navigation_is_circular
          [of "handleViewProducts [exampleItem ''x'', exampleItem ''y'', exampleItem ''z''] exampleOrderList"]
        product_navigation_is_circular
          [of "handleViewProducts [exampleItem ''x''] exampleOrderList"]
  by (simp add: handleViewProducts_def)

section \<open>Deleting a record\<close>

text \<open>
  Claim C9.  When the remote delete succeeds, each collection loses the records whose id
  is the deleted one and keeps every other record; when the ids of the collection are
  distinct and position \<open>i\<close> holds the id, the new collection is the old one without
  position \<open>i\<close>, one record shorter.  When the id does not occur in a collection, that
  collection is unchanged whatever the remote outcome.  When the remote delete fails, both
  collections are unchanged and an error message is set.  This holds for the order list
  and for the stock list.
\<close>

theorem delete_removes_by_id:
  "(\<forall>i < length (orders s).
      distinct (map order_id (orders s)) \<and> order_id (orders s ! i) = order_id order \<longrightarrow>
      orders (performDelete order (CallResponse True) s) =
        take i (orders s) @ drop (Suc i) (orders s) \<and>
      Suc (length (orders (performDelete order (CallResponse True) s))) = length (orders s)) \<and>
   (\<forall>i < length (filteredOrders s).
      distinct (map order_id (filteredOrders s)) \<and>
      order_id (filteredOrders s ! i) = order_id order \<longrightarrow>
      filteredOrders (performDelete order (CallResponse True) s) =
        take i (filteredOrders s) @ drop (Suc i) (filteredOrders s) \<and>
      Suc (length (filteredOrders (performDelete order (CallResponse True) s))) =
        length (filteredOrders s)) \<and>
   set (orders (performDelete order (CallResponse True) s)) =
     {x \<in> set (orders s). order_id x \<noteq> order_id order} \<and>
   set (filteredOrders (performDelete order (CallResponse True) s)) =
     {x \<in> set (filteredOrders s). order_id x \<noteq> order_id order} \<and>
   (order_id order \<notin> order_id ` set (orders s) \<longrightarrow>
      orders (performDelete order outcome s) = orders s) \<and>
   (order_id order \<notin> order_id ` set (filteredOrders s) \<longrightarrow>
      filteredOrders (performDelete order outcome s) = filteredOrders s) \<and>
   (outcome \<noteq> CallResponse True \<longrightarrow>
      orders (performDelete order outcome s) = orders s \<and>
      filteredOrders (performDelete order outcome s) = filteredOrders s \<and>
      (\<exists>msg. error (performDelete order outcome s) = Some msg)) \<and>
   (\<forall>i < length (stocks t).
      distinct (map stock_id (stocks t)) \<and> stock_id (stocks t ! i) = stock_id st \<longrightarrow>
      stocks (stock_performDelete st (CallResponse True) t) =
        take i (stocks t) @ drop (Suc i) (stocks t) \<and>
      Suc (length (stocks (stock_performDelete st (CallResponse True) t))) = length (stocks t)) \<and>
   (\<forall>i < length (filteredStocks t).
      distinct (map stock_id (filteredStocks t)) \<and>
      stock_id (filteredStocks t ! i) = stock_id st \<longrightarrow>
      filteredStocks (stock_performDelete st (CallResponse True) t) =
        take i (filteredStocks t) @ drop (Suc i) (filteredStocks t) \<and>
      Suc (length (filteredStocks (stock_performDelete st (CallResponse True) t))) =
        length (filteredStocks t)) \<and>
   set (stocks (stock_performDelete st (CallResponse True) t)) =
     {x \<in> set (stocks t). stock_id x \<noteq> stock_id st} \<and>
   set (filteredStocks (stock_performDelete st (CallResponse True) t)) =
     {x \<in> set (filteredStocks t). stock_id x \<noteq> stock_id st} \<and>
   (stock_id st \<notin> stock_id ` set (stocks t) \<longrightarrow>
      stocks (stock_performDelete st outcome t) = stocks t) \<and>
   (stock_id st \<notin> stock_id ` set (filteredStocks t) \<longrightarrow>
      filteredStocks (stock_performDelete st outcome t) = filteredStocks t) \<and>
   (outcome \<noteq> CallResponse True \<longrightarrow>
      stocks (stock_performDelete st outcome t) = stocks t \<and>
      filteredStocks (stock_performDelete st outcome t) = filteredStocks t \<and>
      (\<exists>msg. stock_error (stock_performDelete st outcome t) = Some msg))"
proof (intro conjI allI impI)
  fix i
  assume "i < length (orders s)"
    and "distinct (map order_id (orders s)) \<and> order_id (orders s ! i) = order_id order"
  then show "orders (performDelete order (CallResponse True) s) =
        take i (orders s) @ drop (Suc i) (orders s)"
    and "Suc (length (orders (performDelete order (CallResponse True) s))) = length (orders s)"
    by (simp_all add: performDelete_ok remove_unique remove_unique_length)
next
  fix i
  assume "i < length (filteredOrders s)"
    and "distinct (map order_id (filteredOrders s)) \<and>
         order_id (filteredOrders s ! i) = order_id order"
  then show "filteredOrders (performDelete order (CallResponse True) s) =
        take i (filteredOrders s) @ drop (Suc i) (filteredOrders s)"
    and "Suc (length (filteredOrders (performDelete order (CallResponse True) s))) =
        length (filteredOrders s)"
    by (simp_all add: performDelete_ok remove_unique remove_unique_length)
next
  fix i
  assume "i < length (stocks t)"
    and "distinct (map stock_id (stocks t)) \<and> stock_id (stocks t ! i) = stock_id st"
  then show "stocks (stock_performDelete st (CallResponse True) t) =
        take i (stocks t) @ drop (Suc i) (stocks t)"
    and "Suc (length (stocks (stock_performDelete st (CallResponse True) t))) = length (stocks t)"
    by (simp_all add: stock_performDelete_ok remove_unique remove_unique_length)
next
  fix i
  assume "i < length (filteredStocks t)"
    and "distinct (map stock_id (filteredStocks t)) \<and>
         stock_id (filteredStocks t ! i) = stock_id st"
  then show "filteredStocks (stock_performDelete st (CallResponse True) t) =
        take i (filteredStocks t) @ drop (Suc i) (filteredStocks t)"
    and "Suc (length (filteredStocks (stock_performDelete st (CallResponse True) t))) =
        length (filteredStocks t)"
    by (simp_all add: stock_performDelete_ok remove_unique remove_unique_length)
qed (simp_all add: performDelete_ok performDelete_failed performDelete_absent
       stock_performDelete_ok stock_performDelete_failed stock_performDelete_absent)


theorem delete_removes_by_id_witness:
  "orders (performDelete (exampleOrder ''a'' ''Pending'') (CallResponse True) exampleOrderList) =
     [exampleOrder ''b'' ''Pending''] \<and>
   filteredOrders (performDelete (exampleOrder ''a'' ''Pending'') (CallResponse True) exampleOrderList) =
     [exampleOrder ''b'' ''Pending''] \<and>
   orders (performDelete (exampleOrder ''zz'' ''Pending'') (CallResponse True) exampleOrderList) =
     exampleOrders \<and>
   filteredOrders (performDelete (exampleOrder ''zz'' ''Pending'') (CallResponse True) exampleOrderList) =
     exampleOrders \<and>
   orders (performDelete (exampleOrder ''a'' ''Pending'') (CallResponse False) exampleOrderList) =
     exampleOrders \<and>
   filteredOrders (performDelete (exampleOrder ''a'' ''Pending'') (CallResponse False) exampleOrderList) =
     exampleOrders \<and>
   error (performDelete (exampleOrder ''a'' ''Pending'') (CallResponse False) exampleOrderList) =
     Some (ascii ''Failed to delete order'') \<and>
   stocks (stock_performDelete (exampleStock ''s2'') (CallResponse True) exampleStockList) =
     [exampleStock ''s1''] \<and>
   filteredStocks (stock_performDelete (exampleStock ''s2'') (CallResponse True) exampleStockList) =
     [exampleStock ''s1''] \<and>
   stocks (stock_performDelete (exampleStock ''s9'') (CallResponse True) exampleStockList) =
     exampleStocks \<and>
   filteredStocks (stock_performDelete (exampleStock ''s9'') (CallResponse True) exampleStockList) =
     exampleStocks \<and>
   stocks (stock_performDelete (exampleStock ''s2'') (CallRejected (ErrorInstance (ascii ''offline'')))
             exampleStockList) = exampleStocks \<and>
   filteredStocks (stock_performDelete (exampleStock ''s2'') (CallRejected (ErrorInstance (ascii ''offline'')))
             exampleStockList) = exampleStocks \<and>
   stock_error (stock_performDelete (exampleStock ''s2'') (CallRejected (ErrorInstance (ascii ''offline'')))
             exampleStockList) = Some (ascii ''offline'')"
proof -
  have msg: "error (performDelete (exampleOrder ''a'' ''Pending'') (CallResponse False) exampleOrderList) =
      Some (ascii ''Failed to delete order'')"
    "stock_error (stock_performDelete (exampleStock ''s2'') (CallRejected (ErrorInstance (ascii ''offline'')))
       exampleStockList) = Some (ascii ''offline'')"
    by (simp_all add: performDelete_def stock_performDelete_def closeConfirmationModal_def
        stock_closeConfirmationModal_def callFailure_def errorMessage_def)
  show ?thesis
    using delete_removes_by_id
            [of exampleOrderList "exampleOrder ''a'' ''Pending''" "CallResponse False"
                exampleStockList "exampleStock ''s2''"]
          delete_removes_by_id
            [of exampleOrderList "exampleOrder ''zz'' ''Pending''" "CallResponse True"
                exampleStockList "exampleStock ''s9''"]
          delete_removes_by_id
            [of exampleOrderList "exampleOrder ''a'' ''Pending''"
                "CallRejected (ErrorInstance (ascii ''offline''))" exampleStockList "exampleStock ''s2''"]
    by (simp add: msg exampleOrderList_orders exampleStockList_stocks exampleOrders_def
        exampleStocks_def example_ids ascii_eq_iff All_less_Suc2 numeral_2_eq_2)
qed

section \<open>The filtered view after a change of the canonical collection\<close>

text \<open>
  Claim C5, as the specification words it, fails: a status update does not recompute the
  filtered collection.  In the example the search for \<open>pending\<close> shows both orders;
  after order \<open>a\<close> is updated to \<open>Shipped\<close> it is still in the filtered collection,
  so not every filtered element satisfies the search predicate, and the filtered
  collection differs from the predicate's filter of the new canonical collection.
\<close>

theorem filtered_view_not_recomputed:
  "\<not> list_all (orderMatches asciiToLowerCase (searchQuery (ui exampleSearchedRuntime)))
       (filteredOrders
          (ui (handleStatusChange_settle (ascii ''a'') (ascii ''Shipped'') (CallResponse True) exampleSearchedRuntime))) \<and>
   filteredOrders
     (ui (handleStatusChange_settle (ascii ''a'') (ascii ''Shipped'') (CallResponse True) exampleSearchedRuntime)) \<noteq>
   filter (orderMatches asciiToLowerCase (searchQuery (ui exampleSearchedRuntime)))
     (orders (ui (handleStatusChange_settle (ascii ''a'') (ascii ''Shipped'') (CallResponse True) exampleSearchedRuntime)))"
  by (simp add: exampleSearchedRuntime_def exampleTyped_def handleSearchInputChange_def
      searchFires_def handleSearch_def
      handleStatusChange_settle_def callFailure_def setTimeout_def
      exampleOrderList_orders exampleOrders_def exampleOrder_def exampleCustomer_def
      orderMatches_def string_eval)

text \<open>
  Claim C5, amended.  A change of the canonical collection is applied to the filtered
  collection by the same by-id transformation; the search predicate is not applied again.
  After a status update the filtered collection is the old one with the record of that id
  replaced, and every filtered element with another id still satisfies the predicate if
  all did before.  After a delete the result is what recomputing would give: if the
  filtered collection was the predicate's filter of the canonical one it still is, and
  every filtered element still satisfies the predicate if all did before; for orders and
  for stocks.
\<close>

theorem filtered_view_follows_by_id:
  "filteredOrders (ui (handleStatusChange_settle X S (CallResponse True) rt)) =
     map (\<lambda>order. if order_id order = X then order\<lparr>status := S\<rparr> else order)
       (filteredOrders (ui rt)) \<and>
   (list_all (orderMatches toLowerCase q) (filteredOrders (ui rt)) \<longrightarrow>
      list_all (\<lambda>x. order_id x = X \<or> orderMatches toLowerCase q x)
        (filteredOrders (ui (handleStatusChange_settle X S outcome rt)))) \<and>
   (filteredOrders s = filter (orderMatches toLowerCase q) (orders s) \<longrightarrow>
      filteredOrders (performDelete order (CallResponse True) s) =
        filter (orderMatches toLowerCase q) (orders (performDelete order (CallResponse True) s))) \<and>
   (list_all (orderMatches toLowerCase q) (filteredOrders s) \<longrightarrow>
      list_all (orderMatches toLowerCase q) (filteredOrders (performDelete order outcome s))) \<and>
   (filteredStocks t = filter (stockMatches toLowerCase q) (stocks t) \<longrightarrow>
      filteredStocks (stock_performDelete st (CallResponse True) t) =
        filter (stockMatches toLowerCase q) (stocks (stock_performDelete st (CallResponse True) t))) \<and>
   (list_all (stockMatches toLowerCase q) (filteredStocks t) \<longrightarrow>
      list_all (stockMatches toLowerCase q) (filteredStocks (stock_performDelete st outcome t)))"
proof (intro conjI impI)
  show "filteredOrders (ui (handleStatusChange_settle X S (CallResponse True) rt)) =
     map (\<lambda>order. if order_id order = X then order\<lparr>status := S\<rparr> else order)
       (filteredOrders (ui rt))"
    by (simp add: handleStatusChange_settle_def callFailure_ok setTimeout_def)
next
  assume "list_all (orderMatches toLowerCase q) (filteredOrders (ui rt))"
  then show "list_all (\<lambda>x. order_id x = X \<or> orderMatches toLowerCase q x)
        (filteredOrders (ui (handleStatusChange_settle X S outcome rt)))"
    by (cases "callFailure (ascii ''Failed to update order status'') outcome")
       (auto simp: handleStatusChange_settle_def setTimeout_def list_all_iff)
next
  assume "filteredOrders s = filter (orderMatches toLowerCase q) (orders s)"
  then show "filteredOrders (performDelete order (CallResponse True) s) =
        filter (orderMatches toLowerCase q) (orders (performDelete order (CallResponse True) s))"
    by (simp only: performDelete_ok remove_commutes_with_search)
next
  assume "list_all (orderMatches toLowerCase q) (filteredOrders s)"
  then show "list_all (orderMatches toLowerCase q) (filteredOrders (performDelete order outcome s))"
    by (cases "outcome = CallResponse True")
       (simp_all add: performDelete_ok performDelete_failed list_all_iff)
next
  assume "filteredStocks t = filter (stockMatches toLowerCase q) (stocks t)"
  then show "filteredStocks (stock_performDelete st (CallResponse True) t) =
        filter (stockMatches toLowerCase q) (stocks (stock_performDelete st (CallResponse True) t))"
    by (simp only: stock_performDelete_ok remove_commutes_with_search)
next
  assume "list_all (stockMatches toLowerCase q) (filteredStocks t)"
  then show "list_all (stockMatches toLowerCase q) (filteredStocks (stock_performDelete st outcome t))"
    by (cases "outcome = CallResponse True")
       (simp_all add: stock_performDelete_ok stock_performDelete_failed list_all_iff)
qed

theorem filtered_view_follows_by_id_witness:
  "filteredOrders (ui exampleSearchedRuntime) =
     filter (orderMatches asciiToLowerCase (ascii ''pending'')) (orders (ui exampleSearchedRuntime)) \<and>
   list_all (orderMatches asciiToLowerCase (ascii ''pending'')) (filteredOrders (ui exampleSearchedRuntime)) \<and>
   filteredOrders
     (performDelete (exampleOrder ''a'' ''Pending'') (CallResponse True) (ui exampleSearchedRuntime)) =
     filter (orderMatches asciiToLowerCase (ascii ''pending''))
       (orders (performDelete (exampleOrder ''a'' ''Pending'') (CallResponse True)
          (ui exampleSearchedRuntime))) \<and>
   list_all (orderMatches asciiToLowerCase (ascii ''pending''))
     (filteredOrders
        (performDelete (exampleOrder ''a'' ''Pending'') (CallResponse True)
           (ui exampleSearchedRuntime))) \<and>
   list_all (\<lambda>x. order_id x = (ascii ''a'') \<or> orderMatches asciiToLowerCase (ascii ''pending'') x)
     (filteredOrders
        (ui (handleStatusChange_settle (ascii ''a'') (ascii ''Shipped'') (CallResponse True) exampleSearchedRuntime))) \<and>
   filteredStocks (stock_handleSearch asciiToLowerCase exampleStocks (ascii ''acme'') exampleStockList) =
     filter (stockMatches asciiToLowerCase (ascii ''acme'')) (stocks (stock_handleSearch asciiToLowerCase exampleStocks (ascii ''acme'') exampleStockList)) \<and>
   list_all (stockMatches asciiToLowerCase (ascii ''acme'')) (filteredStocks (stock_handleSearch asciiToLowerCase exampleStocks (ascii ''acme'') exampleStockList)) \<and>
   filteredStocks
     (stock_performDelete (exampleStock ''s2'') (CallResponse True)
        (stock_handleSearch asciiToLowerCase exampleStocks (ascii ''acme'') exampleStockList)) =
     filter (stockMatches asciiToLowerCase (ascii ''acme''))
       (stocks (stock_performDelete (exampleStock ''s2'') (CallResponse True)
          (stock_handleSearch asciiToLowerCase exampleStocks (ascii ''acme'') exampleStockList))) \<and>
   list_all (stockMatches asciiToLowerCase (ascii ''acme''))
     (filteredStocks
        (stock_performDelete (exampleStock ''s2'') (CallResponse True)
           (stock_handleSearch asciiToLowerCase exampleStocks (ascii ''acme'') exampleStockList)))"
proof -
  have o: "filteredOrders (ui exampleSearchedRuntime) =
      filter (orderMatches asciiToLowerCase (ascii ''pending'')) (orders (ui exampleSearchedRuntime))"
    by (simp add: exampleSearchedRuntime_def exampleTyped_def handleSearchInputChange_def
        searchFires_def handleSearch_def)
  have s: "filteredStocks (stock_handleSearch asciiToLowerCase exampleStocks (ascii ''acme'') exampleStockList) =
      filter (stockMatches asciiToLowerCase (ascii ''acme'')) (stocks (stock_handleSearch asciiToLowerCase exampleStocks (ascii ''acme'') exampleStockList))"
    by (simp add: stock_handleSearch_def exampleStockList_stocks)
  have ol: "list_all (orderMatches asciiToLowerCase (ascii ''pending'')) (filteredOrders (ui exampleSearchedRuntime))"
    unfolding o by (simp add: list_all_iff)
  have sl: "list_all (stockMatches asciiToLowerCase (ascii ''acme'')) (filteredStocks (stock_handleSearch asciiToLowerCase exampleStocks (ascii ''acme'') exampleStockList))"
    unfolding s by (simp add: list_all_iff)
  note orders_part =
    filtered_view_follows_by_id
      [of "(ascii ''a'')" "(ascii ''Shipped'')" exampleSearchedRuntime
          asciiToLowerCase "ascii ''pending''" "CallResponse True"
          "ui exampleSearchedRuntime" "exampleOrder ''a'' ''Pending''"]
  note stocks_part =
    filtered_view_follows_by_id
      [of "(ascii ''a'')" "(ascii ''Shipped'')" exampleSearchedRuntime
          asciiToLowerCase "ascii ''acme''" "CallResponse True"
          "ui exampleSearchedRuntime" "exampleOrder ''a'' ''Pending''"
          "stock_handleSearch asciiToLowerCase exampleStocks (ascii ''acme'') exampleStockList" "exampleStock ''s2''"]
  note c2 = orders_part [THEN conjunct2, THEN conjunct1, THEN mp, OF ol]
  note c3 = orders_part [THEN conjunct2, THEN conjunct2, THEN conjunct1, THEN mp, OF o]
  note c4 = orders_part [THEN conjunct2, THEN conjunct2, THEN conjunct2, THEN conjunct1,
                         THEN mp, OF ol]
  note c5 = stocks_part [THEN conjunct2, THEN conjunct2, THEN conjunct2, THEN conjunct2,
                         THEN conjunct1, THEN mp, OF s]
  note c6 = stocks_part [THEN conjunct2, THEN conjunct2, THEN conjunct2, THEN conjunct2,
                         THEN conjunct2, THEN mp, OF sl]
  show ?thesis
    by (intro conjI o ol c3 c4 c2 s sl c5 c6)
qed

end
